theory Spec2Isabelle
  imports Main
begin

section \<open>Data model\<close>

text \<open>
  The durable store is the SQLite schema of \<^verbatim>\<open>src/database.js\<close>; the engine-local state is
  the set of module variables at the top of \<^verbatim>\<open>src/routes/auction.js\<close>. Identifiers are
  natural numbers, nullable columns are options, amounts and clock readings (milliseconds)
  are integers. A JavaScript test \<^verbatim>\<open>!x\<close> on a nullable identifier is false exactly when the
  identifier is present and non-zero.
\<close>

datatype mode = Auction | Draft | Idle

datatype role = Player | Captain | Owner | Admin | Spectator

datatype acquisition = Core | Drafted | Auctioned

record auction_state =
  mode :: mode
  current_player_id :: "nat option"
  current_bid :: int
  current_bidder_team_id :: "nat option"
  timer_end :: "int option"
  draft_round :: int
  draft_pick :: int
  draft_order :: "nat list option"
  season :: int

record team =
  owner_id :: "nat option"
  captain_id :: "nat option"
  budget_remaining :: int
  bidding_authority_user_id :: "nat option"

record player =
  user_id :: "nat option"
  base_price :: int
  is_available :: bool

record user =
  user_role :: role

record roster_row =
  roster_team_id :: nat
  roster_player_id :: nat
  acquisition_type :: acquisition
  price :: int
  roster_season :: int

record log_row =
  log_player_id :: nat
  log_team_id :: nat
  bid_amount :: int
  bid_increment :: int
  is_auto_bid :: bool
  is_winning_bid :: bool
  log_season :: int

record draft_row =
  round_number :: int
  pick_number :: int
  pick_team_id :: nat
  pick_player_id :: nat
  pick_season :: int

text \<open>A queue entry \<^verbatim>\<open>{teamId, amount, increment, isAutoBid}\<close>.\<close>

record bid =
  teamId :: nat
  amount :: int
  increment :: int
  isAutoBid :: bool

text \<open>An auto-bid instruction \<^verbatim>\<open>{maxBid, increment, active}\<close>.\<close>

record settings =
  maxBid :: int
  settings_increment :: int
  active :: bool

text \<open>
  \<open>autoBidSettings\<close> is a JavaScript object keyed by team id. \<^verbatim>\<open>Object.entries\<close> lists
  integer keys in ascending order, so the object is kept as an association list with
  ascending, distinct keys. \<open>currentPhase\<close> is the string the code keeps.
  \<open>phaseTimer\<close> holds the due time of the pending \<^verbatim>\<open>setTimeout\<close>, if any.
\<close>

record world =
  st :: auction_state
  teams :: "nat \<rightharpoonup> team"
  players :: "nat \<rightharpoonup> player"
  users :: "nat \<rightharpoonup> user"
  team_roster :: "roster_row list"
  auction_log :: "log_row list"
  draft_log :: "draft_row list"
  bidQueue :: "bid list"
  isProcessingBids :: bool
  lastBidTime :: int
  setupPhaseDuration :: int
  autoBidSettings :: "(nat \<times> settings) list"
  currentPhase :: string
  phaseTimer :: "int option"

text \<open>An HTTP answer: the status code and the message (the error text when the status is not 200).\<close>

datatype response = Response nat string

fun status :: "response \<Rightarrow> nat" where
  "status (Response c m) = c"

definition rejected :: "response \<Rightarrow> bool" where
  "rejected r = (400 \<le> status r)"

definition truthy :: "nat option \<Rightarrow> bool" where
  "truthy x = (case x of None \<Rightarrow> False | Some n \<Rightarrow> n \<noteq> 0)"

definition BID_INTERVAL_MS :: int where
  "BID_INTERVAL_MS = 3000"

section \<open>The bid queue\<close>

text \<open>
  \<^verbatim>\<open>executeBid\<close> reads the clock once (\<open>now\<close>). Its result is the object
  \<^verbatim>\<open>{success, error}\<close>: \<open>Inl\<close> carries the error text.
\<close>

definition executeBid :: "int \<Rightarrow> bid \<Rightarrow> world \<Rightarrow> (string + unit) \<times> world" where
  "executeBid now b s =
     (let state = st s in
      if mode state \<noteq> Auction \<or> \<not> truthy (current_player_id state)
      then (Inl ''Auction not active'', s)
      else if amount b \<le> current_bid state
      then (Inl ''Bid too low'', s)
      else case teams s (teamId b) of
        None \<Rightarrow> (Inl ''Invalid team or insufficient budget'', s)
      | Some team \<Rightarrow>
          if amount b > budget_remaining team
          then (Inl ''Invalid team or insufficient budget'', s)
          else (Inr (),
            s\<lparr>st := state\<lparr>current_bid := amount b,
                           current_bidder_team_id := Some (teamId b),
                           timer_end := Some (now + 10 * 1000)\<rparr>,
              auction_log := auction_log s @
                [\<lparr>log_player_id = the (current_player_id state),
                  log_team_id = teamId b,
                  bid_amount = amount b,
                  bid_increment = increment b,
                  is_auto_bid = isAutoBid b,
                  is_winning_bid = False,
                  log_season = season state\<rparr>]\<rparr>))"

text \<open>The scan of \<^verbatim>\<open>checkAutoBids\<close>: one pass over the entries, pushing to the queue.\<close>

fun checkAutoBids_scan ::
  "nat \<Rightarrow> auction_state \<Rightarrow> (nat \<rightharpoonup> team) \<Rightarrow> (nat \<times> settings) list \<Rightarrow> bid list \<Rightarrow> bid list" where
  "checkAutoBids_scan excludeTeamId state tms [] q = q"
| "checkAutoBids_scan excludeTeamId state tms ((tid, sets) # rest) q =
     (if tid = excludeTeamId \<or> \<not> active sets
      then checkAutoBids_scan excludeTeamId state tms rest q
      else case tms tid of
        None \<Rightarrow> checkAutoBids_scan excludeTeamId state tms rest q
      | Some team \<Rightarrow>
          (let nextBid = current_bid state + settings_increment sets in
           if nextBid \<le> maxBid sets \<and> nextBid \<le> budget_remaining team
           then checkAutoBids_scan excludeTeamId state tms rest
                  (q @ [\<lparr>teamId = tid, amount = nextBid,
                          increment = settings_increment sets, isAutoBid = True\<rparr>])
           else checkAutoBids_scan excludeTeamId state tms rest q))"

text \<open>
  \<^verbatim>\<open>processBidQueue\<close> is an \<^verbatim>\<open>async\<close> function. It is cut at its one real suspension
  point, the \<^verbatim>\<open>setTimeout\<close> of the pacing wait, and at the loop test:
  \<^item> \<open>processBidQueue\<close> is the entry: the guard, the flag, and the first loop test;
  \<^item> \<open>processBidQueue_while\<close> is the loop test with the clock reading \<open>now\<close>; where the
    code waits it returns the state as it stands (the flag stays set);
  \<^item> \<open>processBidQueue_iteration\<close> is the rest of the loop body, from
    \<^verbatim>\<open>bidQueue.shift()\<close> to the end of \<^verbatim>\<open>checkAutoBids\<close>; it is also what runs when the
    pacing wait is over. The value \<^verbatim>\<open>executeBid\<close> returns is dropped, as in the code,
    and the clock readings of one iteration are one reading, \<open>now\<close>.
  The event loop runs the next loop test after an iteration. \<^verbatim>\<open>checkAutoBids\<close> ends by
  calling \<^verbatim>\<open>processBidQueue\<close> again when no drain is in progress, so the four functions
  are mutually recursive; the recursion ends because the entry sets the flag.
\<close>

function processBidQueue :: "int \<Rightarrow> world \<Rightarrow> world"
  and processBidQueue_while :: "int \<Rightarrow> world \<Rightarrow> world"
  and processBidQueue_iteration :: "int \<Rightarrow> world \<Rightarrow> world"
  and checkAutoBids :: "nat \<Rightarrow> int \<Rightarrow> world \<Rightarrow> world" where
  "processBidQueue now s =
     (if isProcessingBids s \<or> bidQueue s = [] then s
      else processBidQueue_while now (s\<lparr>isProcessingBids := True\<rparr>))"
| "processBidQueue_while now s =
     (if bidQueue s = [] then s\<lparr>isProcessingBids := False\<rparr>
      else if now - lastBidTime s < BID_INTERVAL_MS then s
      else processBidQueue_iteration now s)"
| "processBidQueue_iteration now s =
     (case bidQueue s of
        [] \<Rightarrow> s
      | b # rest \<Rightarrow>
          checkAutoBids (teamId b) now
            ((snd (executeBid now b (s\<lparr>bidQueue := rest\<rparr>)))\<lparr>lastBidTime := now\<rparr>))"
| "checkAutoBids excludeTeamId now s =
     (let state = st s in
      if mode state \<noteq> Auction \<or> \<not> truthy (current_player_id state) then s
      else
        (let s' = s\<lparr>bidQueue := checkAutoBids_scan excludeTeamId state (teams s)
                                  (autoBidSettings s) (bidQueue s)\<rparr>
         in if bidQueue s' \<noteq> [] \<and> \<not> isProcessingBids s' then processBidQueue now s' else s'))"
  by pat_completeness auto
termination
  by (relation "measure (\<lambda>x. case x of
      Inl (Inl (now, s)) \<Rightarrow> if isProcessingBids s then 0 else 3
    | Inl (Inr (now, s)) \<Rightarrow> if isProcessingBids s then 2 else 6
    | Inr (Inl (now, s)) \<Rightarrow> if isProcessingBids s then 1 else 5
    | Inr (Inr (e, now, s)) \<Rightarrow> if isProcessingBids s then 0 else 4)")
     (simp_all add: executeBid_def Let_def split: option.splits)

declare processBidQueue.simps [simp del]
declare processBidQueue_while.simps [simp del]
declare processBidQueue_iteration.simps [simp del]
declare checkAutoBids.simps [simp del]

section \<open>The phase controller and the initial seed\<close>

text \<open>
  \<^verbatim>\<open>Array.prototype.sort\<close> is stable, and so is \<open>sort_key\<close>; sorting by the negated
  ceiling puts the highest \<^verbatim>\<open>maxBid\<close> first.
\<close>

definition triggerInitialAutoBids :: "auction_state \<Rightarrow> int \<Rightarrow> world \<Rightarrow> world" where
  "triggerInitialAutoBids state now s =
     (let sortedAutoBids =
            sort_key (\<lambda>e. - maxBid (snd e))
              (filter (\<lambda>e. active (snd e) \<and> maxBid (snd e) \<ge> current_bid state)
                 (autoBidSettings s))
      in case sortedAutoBids of
           [] \<Rightarrow> s
         | (tid, sets) # others \<Rightarrow>
             (case teams s tid of
                None \<Rightarrow> s
              | Some team \<Rightarrow>
                  if current_bid state \<le> budget_remaining team
                  then processBidQueue now
                         (s\<lparr>bidQueue := bidQueue s @
                              [\<lparr>teamId = tid, amount = current_bid state,
                                increment = 0, isAutoBid = True\<rparr>]\<rparr>)
                  else s))"

definition startBiddingPhase :: "int \<Rightarrow> world \<Rightarrow> world" where
  "startBiddingPhase now s =
     (let s1 = s\<lparr>currentPhase := ''bidding''\<rparr>;
          s2 = s1\<lparr>st := (st s1)\<lparr>timer_end := Some (now + 30 * 1000)\<rparr>\<rparr>;
          state = st s2
      in if truthy (current_player_id state) then triggerInitialAutoBids state now s2 else s2)"

text \<open>
  The deferred transition armed by \<^verbatim>\<open>/auction/next-player\<close>. A timer that has fired is
  inert, so the model forgets it when it fires.
\<close>

definition phaseTimer_fires :: "int \<Rightarrow> world \<Rightarrow> world" where
  "phaseTimer_fires now s =
     (case phaseTimer s of
        None \<Rightarrow> s
      | Some due \<Rightarrow> if due \<le> now then startBiddingPhase now (s\<lparr>phaseTimer := None\<rparr>) else s)"

section \<open>Bidding authority\<close>

definition hasBiddingAuthority :: "team \<Rightarrow> nat \<Rightarrow> role \<Rightarrow> bool" where
  "hasBiddingAuthority team userId userRole =
     (if userRole = Admin then True
      else if truthy (bidding_authority_user_id team)
      then bidding_authority_user_id team = Some userId
      else owner_id team = Some userId)"

text \<open>The middleware \<^verbatim>\<open>requireAdmin\<close>, for a request that carries a valid token.\<close>

definition requireAdmin :: "role \<Rightarrow> response option" where
  "requireAdmin userRole =
     (if userRole = Admin then None else Some (Response 403 ''Insufficient permissions''))"

section \<open>The auction routes\<close>

text \<open>
  A handler takes the authenticated user (\<open>userId\<close>, \<open>userRole\<close>), the fields of the
  request body (absent fields are \<open>None\<close>), the clock reading where the code reads the
  clock, and the world; it returns the answer and the new world. An exception inside
  the \<^verbatim>\<open>try\<close> block is the answer 500.
\<close>

definition truthy_int :: "int option \<Rightarrow> bool" where
  "truthy_int x = (case x of None \<Rightarrow> False | Some n \<Rightarrow> n \<noteq> 0)"

definition post_auction_next_player ::
  "role \<Rightarrow> nat option \<Rightarrow> int \<Rightarrow> world \<Rightarrow> response \<times> world" where
  "post_auction_next_player userRole player_id now s =
     (case requireAdmin userRole of
        Some r \<Rightarrow> (r, s)
      | None \<Rightarrow>
          if \<not> truthy player_id then (Response 400 ''Player ID is required'', s)
          else
            (case players s (the player_id) of
               None \<Rightarrow> (Response 404 ''Player not found or not available'', s)
             | Some p \<Rightarrow>
                 if \<not> is_available p \<or>
                    (case user_id p of None \<Rightarrow> True | Some u \<Rightarrow> users s u = None)
                 then (Response 404 ''Player not found or not available'', s)
                 else
                   (let s1 = s\<lparr>bidQueue := [], autoBidSettings := [], phaseTimer := None\<rparr>;
                        s2 = s1\<lparr>currentPhase := ''setup''\<rparr>;
                        setupEndTime = now + setupPhaseDuration s2;
                        s3 = s2\<lparr>st := (st s2)\<lparr>current_player_id := player_id,
                                              current_bid := base_price p,
                                              current_bidder_team_id := None,
                                              timer_end := Some setupEndTime\<rparr>\<rparr>
                    in (Response 200 ''Player set for auction - setup phase started'',
                        s3\<lparr>phaseTimer := Some setupEndTime\<rparr>))))"

definition post_auction_bid ::
  "nat \<Rightarrow> role \<Rightarrow> nat option \<Rightarrow> int option \<Rightarrow> int option \<Rightarrow> int \<Rightarrow> world
     \<Rightarrow> response \<times> world" where
  "post_auction_bid userId userRole team_id amt incr now s =
     (if \<not> truthy team_id \<or> \<not> truthy_int amt
      then (Response 400 ''Team ID and amount are required'', s)
      else
        (let state = st s in
         if mode state \<noteq> Auction then (Response 400 ''Auction is not active'', s)
         else if \<not> truthy (current_player_id state)
         then (Response 400 ''No player currently being auctioned'', s)
         else if currentPhase s = ''setup''
         then (Response 400 ''Still in setup phase - set your auto-bid target instead'', s)
         else
           (case teams s (the team_id) of
              None \<Rightarrow> (Response 404 ''Team not found'', s)
            | Some team \<Rightarrow>
                if \<not> hasBiddingAuthority team userId userRole
                then (Response 403 ''You do not have bidding authority for this team'', s)
                else if the amt \<le> current_bid state
                then (Response 400 ''Bid must be higher than current bid'', s)
                else if the amt > budget_remaining team
                then (Response 400 ''Insufficient budget'', s)
                else
                  (Response 200 ''Bid queued'',
                   processBidQueue now
                     (s\<lparr>bidQueue := bidQueue s @
                          [\<lparr>teamId = the team_id, amount = the amt,
                            increment = (if truthy_int incr then the incr
                                         else the amt - current_bid state),
                            isAutoBid = False\<rparr>]\<rparr>)))))"




text \<open>
  The store's constraints on \<^verbatim>\<open>team_roster\<close> (\<^verbatim>\<open>src/database.js\<close>, with
  \<^verbatim>\<open>foreign_keys = ON\<close>): the team and the player exist, and
  \<^verbatim>\<open>UNIQUE(team_id, player_id, season)\<close>. An insert that breaks one throws.
\<close>

definition insert_team_roster :: "roster_row \<Rightarrow> world \<Rightarrow> world option" where
  "insert_team_roster r s =
     (if teams s (roster_team_id r) = None \<or> players s (roster_player_id r) = None \<or>
         list_ex (\<lambda>x. roster_team_id x = roster_team_id r \<and>
                       roster_player_id x = roster_player_id r \<and>
                       roster_season x = roster_season r) (team_roster s)
      then None
      else Some (s\<lparr>team_roster := team_roster s @ [r]\<rparr>))"

definition clear_current_auction :: "auction_state \<Rightarrow> auction_state" where
  "clear_current_auction state =
     state\<lparr>current_player_id := None, current_bid := 0,
           current_bidder_team_id := None, timer_end := None\<rparr>"

definition post_auction_sold :: "role \<Rightarrow> world \<Rightarrow> response \<times> world" where
  "post_auction_sold userRole s =
     (case requireAdmin userRole of
        Some r \<Rightarrow> (r, s)
      | None \<Rightarrow>
          (let s1 = s\<lparr>bidQueue := [], currentPhase := ''idle'', phaseTimer := None\<rparr>;
               state = st s1
           in if \<not> truthy (current_player_id state) \<or> \<not> truthy (current_bidder_team_id state)
              then (Response 400 ''No active bid to complete'', s1)
              else
                (let pid = the (current_player_id state);
                     tid = the (current_bidder_team_id state)
                 in case insert_team_roster
                           \<lparr>roster_team_id = tid, roster_player_id = pid,
                             acquisition_type = Auctioned, price = current_bid state,
                             roster_season = season state\<rparr> s1 of
                      None \<Rightarrow> (Response 500 ''Internal server error'', s1)
                    | Some s2 \<Rightarrow>
                        (let s3 = s2\<lparr>teams := (\<lambda>i. if i = tid
                                     then map_option (\<lambda>t. t\<lparr>budget_remaining :=
                                            budget_remaining t - current_bid state\<rparr>) (teams s2 i)
                                     else teams s2 i)\<rparr>;
                             s4 = s3\<lparr>players := (\<lambda>i. if i = pid
                                     then map_option (\<lambda>p. p\<lparr>is_available := False\<rparr>) (players s3 i)
                                     else players s3 i)\<rparr>;
                             s5 = s4\<lparr>auction_log := map (\<lambda>e.
                                     if log_player_id e = pid \<and> log_team_id e = tid \<and>
                                        bid_amount e = current_bid state \<and>
                                        log_season e = season state
                                     then e\<lparr>is_winning_bid := True\<rparr> else e) (auction_log s4)\<rparr>;
                             s6 = s5\<lparr>st := clear_current_auction (st s5)\<rparr>
                         in (Response 200 ''Player sold'', s6\<lparr>autoBidSettings := []\<rparr>)))))"

definition post_auction_unsold :: "role \<Rightarrow> world \<Rightarrow> response \<times> world" where
  "post_auction_unsold userRole s =
     (case requireAdmin userRole of
        Some r \<Rightarrow> (r, s)
      | None \<Rightarrow>
          (let s1 = s\<lparr>bidQueue := [], currentPhase := ''idle'', phaseTimer := None\<rparr>;
               state = st s1
           in if \<not> truthy (current_player_id state)
              then (Response 400 ''No player being auctioned'', s1)
              else
                (let s2 = s1\<lparr>st := clear_current_auction (st s1)\<rparr>
                 in (Response 200 ''Player marked as unsold'', s2\<lparr>autoBidSettings := []\<rparr>))))"


definition post_auction_skip_to_bidding :: "role \<Rightarrow> int \<Rightarrow> world \<Rightarrow> response \<times> world" where
  "post_auction_skip_to_bidding userRole now s =
     (case requireAdmin userRole of
        Some r \<Rightarrow> (r, s)
      | None \<Rightarrow>
          if currentPhase s \<noteq> ''setup'' then (Response 400 ''Not in setup phase'', s)
          else (Response 200 ''Skipped to bidding phase'',
                startBiddingPhase now (s\<lparr>phaseTimer := None\<rparr>)))"




text \<open>
  \<^verbatim>\<open>POST /auction/authority\<close> and \<^verbatim>\<open>DELETE /auction/authority/:team_id\<close>. The core-player
  test joins \<^verbatim>\<open>team_roster\<close> with \<^verbatim>\<open>players\<close>. The success message of a delegation
  ends with the delegate's name in the code; user names are not part of the model.
\<close>

definition isCorePlayer :: "world \<Rightarrow> nat \<Rightarrow> nat \<Rightarrow> bool" where
  "isCorePlayer s team_id delegate =
     list_ex (\<lambda>tr. roster_team_id tr = team_id \<and> acquisition_type tr = Core \<and>
                    (case players s (roster_player_id tr) of
                       None \<Rightarrow> False
                     | Some p \<Rightarrow> user_id p = Some delegate))
       (team_roster s)"

definition set_bidding_authority :: "nat \<Rightarrow> nat option \<Rightarrow> world \<Rightarrow> world" where
  "set_bidding_authority team_id v s =
     s\<lparr>teams := (\<lambda>i. if i = team_id
                      then map_option (\<lambda>t. t\<lparr>bidding_authority_user_id := v\<rparr>) (teams s i)
                      else teams s i)\<rparr>"

definition post_auction_authority ::
  "nat \<Rightarrow> role \<Rightarrow> nat option \<Rightarrow> nat option \<Rightarrow> world \<Rightarrow> response \<times> world" where
  "post_auction_authority userId userRole team_id delegate_to_user_id s =
     (if \<not> truthy team_id then (Response 400 ''Team ID is required'', s)
      else
        (case teams s (the team_id) of
           None \<Rightarrow> (Response 404 ''Team not found'', s)
         | Some team \<Rightarrow>
             (let isAdmin = (userRole = Admin);
                  isOwner = (owner_id team = Some userId)
              in if \<not> isAdmin \<and> \<not> isOwner
                 then (Response 403 ''Only the team owner can delegate bidding authority'', s)
                 else if truthy delegate_to_user_id
                 then
                   (case users s (the delegate_to_user_id) of
                      None \<Rightarrow> (Response 404 ''User not found'', s)
                    | Some delegateUser \<Rightarrow>
                        (let isCaptain = (captain_id team = delegate_to_user_id);
                             isCore = isCorePlayer s (the team_id) (the delegate_to_user_id)
                         in if \<not> isCaptain \<and> \<not> isCore
                            then (Response 400 ''Can only delegate to team captain or core players'', s)
                            else (Response 200 ''Bidding authority delegated'',
                                  set_bidding_authority (the team_id) delegate_to_user_id s)))
                 else (Response 200 ''Bidding authority returned to owner'',
                       set_bidding_authority (the team_id) None s))))"

definition delete_auction_authority :: "nat \<Rightarrow> role \<Rightarrow> nat \<Rightarrow> world \<Rightarrow> response \<times> world" where
  "delete_auction_authority userId userRole team_id s =
     (case teams s team_id of
        None \<Rightarrow> (Response 404 ''Team not found'', s)
      | Some team \<Rightarrow>
          (let isAdmin = (userRole = Admin);
               isOwner = (owner_id team = Some userId)
           in if \<not> isAdmin \<and> \<not> isOwner
              then (Response 403 ''Only the team owner can revoke bidding authority'', s)
              else (Response 200 ''Bidding authority revoked - returned to owner'',
                    set_bidding_authority team_id None s)))"

section \<open>The draft routes\<close>

text \<open>
  The remainder operator \<^verbatim>\<open>%\<close> of JavaScript on integers truncates towards zero and takes
  the sign of the dividend. With a zero divisor it is \<^verbatim>\<open>NaN\<close>, which the callers below
  treat before they divide.
\<close>

definition js_rem :: "int \<Rightarrow> int \<Rightarrow> int" where
  "js_rem a b = sgn a * (\<bar>a\<bar> mod \<bar>b\<bar>)"

text \<open>
  The team on the clock, as \<^verbatim>\<open>GET /draft/status\<close> and \<^verbatim>\<open>POST /draft/pick\<close> compute it.
  \<open>None\<close> is the \<^verbatim>\<open>undefined\<close> of an array read outside the array.
\<close>

definition currentTeamId :: "auction_state \<Rightarrow> nat option" where
  "currentTeamId state =
     (let draftOrder = (case draft_order state of None \<Rightarrow> [] | Some l \<Rightarrow> l);
          totalTeams = int (length draftOrder)
      in if totalTeams = 0 then None
         else
           (let pickIndex = js_rem (draft_pick state - 1) totalTeams;
                isReverseRound = (js_rem (draft_round state) 2 = 0);
                teamIndex = (if isReverseRound then totalTeams - 1 - pickIndex else pickIndex)
            in if 0 \<le> teamIndex \<and> teamIndex < totalTeams
               then Some (draftOrder ! nat teamIndex) else None))"

definition post_draft_pick ::
  "nat \<Rightarrow> role \<Rightarrow> nat option \<Rightarrow> world \<Rightarrow> response \<times> world" where
  "post_draft_pick userId userRole player_id s =
     (if \<not> truthy player_id then (Response 400 ''Player ID is required'', s)
      else
        (let state = st s in
         if mode state \<noteq> Draft then (Response 400 ''Draft is not active'', s)
         else
           (let draftOrder = (case draft_order state of None \<Rightarrow> [] | Some l \<Rightarrow> l);
                totalTeams = int (length draftOrder)
            in case currentTeamId state of
                 None \<Rightarrow> (Response 500 ''Internal server error'', s)
               | Some ctid \<Rightarrow>
                   (case teams s ctid of
                      None \<Rightarrow> (Response 500 ''Internal server error'', s)
                    | Some team \<Rightarrow>
                        (let isAdmin = (userRole = Admin);
                             isTeamOwnerOrCaptain =
                               (owner_id team = Some userId \<or> captain_id team = Some userId)
                         in if \<not> isAdmin \<and> \<not> isTeamOwnerOrCaptain
                            then (Response 403 ''It is not your turn to pick'', s)
                            else
                              (case players s (the player_id) of
                                 None \<Rightarrow> (Response 404 ''Player not found or not available'', s)
                               | Some p \<Rightarrow>
                                   if \<not> is_available p \<or>
                                      (case user_id p of None \<Rightarrow> True | Some u \<Rightarrow> users s u = None)
                                   then (Response 404 ''Player not found or not available'', s)
                                   else if list_ex (\<lambda>x. roster_player_id x = the player_id \<and>
                                                         roster_season x = season state)
                                             (team_roster s)
                                   then (Response 400 ''Player has already been drafted'', s)
                                   else
                                     (case insert_team_roster
                                             \<lparr>roster_team_id = ctid,
                                               roster_player_id = the player_id,
                                               acquisition_type = Drafted, price = 0,
                                               roster_season = season state\<rparr> s of
                                        None \<Rightarrow> (Response 500 ''Internal server error'', s)
                                      | Some s1 \<Rightarrow>
                                          (let s2 = s1\<lparr>players := (\<lambda>i. if i = the player_id
                                                     then map_option (\<lambda>q. q\<lparr>is_available := False\<rparr>)
                                                            (players s1 i)
                                                     else players s1 i)\<rparr>;
                                               s3 = s2\<lparr>draft_log := draft_log s2 @
                                                     [\<lparr>round_number = draft_round state,
                                                       pick_number = draft_pick state,
                                                       pick_team_id = ctid,
                                                       pick_player_id = the player_id,
                                                       pick_season = season state\<rparr>]\<rparr>;
                                               nextPick = draft_pick state + 1;
                                               nextRound =
                                                 (if js_rem (nextPick - 1) totalTeams = 0 \<and>
                                                     nextPick > draft_pick state
                                                  then draft_round state + 1
                                                  else draft_round state)
                                           in (Response 200 ''Draft pick made'',
                                               s3\<lparr>st := (st s3)\<lparr>draft_round := nextRound,
                                                                   draft_pick := nextPick,
                                                                   timer_end := None\<rparr>\<rparr>)))))))))"

section \<open>Runs of the auction engine\<close>

text \<open>
  The operations that leave the player on the block where it is: the routes above
  that do not set, sell or withdraw a player, and the three ways the event loop
  re-enters the engine (the phase timer fires, the drain's loop test runs, the pacing
  wait of the drain is over).
\<close>

datatype action =
    Bid nat role "nat option" "int option" "int option" int
  | AutoBid nat role "nat option" "int option" "int option" "bool option"
  | ManualBid role "nat option" "int option" int
  | SkipToBidding role int
  | ExtendTimer role "int option" int
  | Pause role
  | Resume role "string option" int
  | PhaseTimerFires int
  | DrainLoopTest int
  | DrainWaitOver int






section \<open>A small league\<close>

text \<open>
  Two teams with the default budget, an administrator (user 99), player 1 on the
  block at the base price during the setup phase, and standing auto-bid instructions of
  both teams. Player 2 is a core player of team 1 (user 12).
\<close>

definition league_teams :: "nat \<rightharpoonup> team" where
  "league_teams = map_of
     [(1, \<lparr>owner_id = Some 10, captain_id = Some 11, budget_remaining = 10000000,
            bidding_authority_user_id = None\<rparr>),
      (2, \<lparr>owner_id = Some 20, captain_id = Some 21, budget_remaining = 10000000,
            bidding_authority_user_id = None\<rparr>)]"

definition league_players :: "nat \<rightharpoonup> player" where
  "league_players = map_of
     [(1, \<lparr>user_id = Some 31, base_price = 100000, is_available = True\<rparr>),
      (2, \<lparr>user_id = Some 12, base_price = 100000, is_available = False\<rparr>),
      (3, \<lparr>user_id = Some 32, base_price = 100000, is_available = True\<rparr>)]"

definition league_users :: "nat \<rightharpoonup> user" where
  "league_users = map_of
     [(10, \<lparr>user_role = Owner\<rparr>), (11, \<lparr>user_role = Captain\<rparr>), (12, \<lparr>user_role = Player\<rparr>),
      (20, \<lparr>user_role = Owner\<rparr>), (21, \<lparr>user_role = Captain\<rparr>), (31, \<lparr>user_role = Player\<rparr>),
      (32, \<lparr>user_role = Player\<rparr>), (99, \<lparr>user_role = Admin\<rparr>)]"

definition league :: world where
  "league =
     \<lparr>st = \<lparr>mode = Auction, current_player_id = Some 1, current_bid = 100000,
             current_bidder_team_id = None, timer_end = Some 30000,
             draft_round = 1, draft_pick = 1, draft_order = None, season = 1\<rparr>,
      teams = league_teams,
      players = league_players,
      users = league_users,
      team_roster = [\<lparr>roster_team_id = 1, roster_player_id = 2, acquisition_type = Core,
                       price = 0, roster_season = 1\<rparr>],
      auction_log = [],
      draft_log = [],
      bidQueue = [],
      isProcessingBids = False,
      lastBidTime = 0,
      setupPhaseDuration = 30000,
      autoBidSettings =
        [(1, \<lparr>maxBid = 300000, settings_increment = 10000, active = True\<rparr>),
         (2, \<lparr>maxBid = 500000, settings_increment = 25000, active = True\<rparr>)],
      currentPhase = ''setup'',
      phaseTimer = Some 30000\<rparr>"

text \<open>
  The same league in the second round of a draft of six teams, at pick 7. Of the six
  teams of the order, the store of this example holds teams 1, 2 and 6.
\<close>

definition draft_league :: world where
  "draft_league =
     league\<lparr>st := (st league)\<lparr>mode := Draft, current_player_id := None, current_bid := 0,
                                timer_end := None, draft_round := 2, draft_pick := 7,
                                draft_order := Some [1, 2, 3, 4, 5, 6]\<rparr>,
            teams := league_teams(6 \<mapsto> \<lparr>owner_id = Some 60, captain_id = Some 61,
                                          budget_remaining = 10000000,
                                          bidding_authority_user_id = None\<rparr>),
            autoBidSettings := [], currentPhase := ''idle'', phaseTimer := None\<rparr>"

text \<open>
  The league with nobody on the block, one bid waiting, the phase \<^verbatim>\<open>bidding\<close> and the
  phase timer pending.
\<close>

definition nobody_on_the_block :: world where
  "nobody_on_the_block =
     league\<lparr>st := (st league)\<lparr>current_player_id := None\<rparr>,
            bidQueue := [\<lparr>teamId = 1, amount = 110000, increment = 10000, isAutoBid = False\<rparr>],
            currentPhase := ''bidding''\<rparr>"

text \<open>The draft at the last pick of its first round.\<close>

definition last_pick_of_round_one :: world where
  "last_pick_of_round_one =
     draft_league\<lparr>st := (st draft_league)\<lparr>draft_round := 1, draft_pick := 6\<rparr>\<rparr>"

text \<open>
  The league once the bidding phase has begun, and two queue entries: the opening bid
  of team 2 at the base price, and a raise of team 1 to 150000.
\<close>

definition bidding_league :: world where
  "bidding_league = league\<lparr>currentPhase := ''bidding'', phaseTimer := None\<rparr>"

definition opening_bid :: bid where
  "opening_bid = \<lparr>teamId = 2, amount = 100000, increment = 0, isAutoBid = True\<rparr>"

definition raise_bid :: bid where
  "raise_bid = \<lparr>teamId = 1, amount = 150000, increment = 50000, isAutoBid = False\<rparr>"

text \<open>
  Team 1 holds the highest bid of 500000 for player 1 (\<open>highest_bid_500000\<close>, the
  bidding league after that bid of team 1); in \<open>already_on_roster\<close> player 1 is, in
  addition, on the roster of team 1 for the season already.
\<close>

definition highest_bid_500000 :: world where
  "highest_bid_500000 =
     snd (executeBid 40000 \<lparr>teamId = 1, amount = 500000, increment = 400000, isAutoBid = False\<rparr>
            bidding_league)"

definition already_on_roster :: world where
  "already_on_roster =
     highest_bid_500000\<lparr>team_roster := team_roster highest_bid_500000 @
        [\<lparr>roster_team_id = 1, roster_player_id = 1, acquisition_type = Core,
          price = 0, roster_season = 1\<rparr>]\<rparr>"


lemmas league_defs = league_def league_teams_def league_players_def league_users_def

lemmas engine_simps = processBidQueue.simps processBidQueue_while.simps
  processBidQueue_iteration.simps checkAutoBids.simps

section \<open>Lemmas about the drain\<close>



lemma executeBid_cases:
  "executeBid now b s =
     (if mode (st s) \<noteq> Auction \<or> \<not> truthy (current_player_id (st s)) \<or>
         amount b \<le> current_bid (st s) \<or>
         (case teams s (teamId b) of None \<Rightarrow> True | Some team \<Rightarrow> budget_remaining team < amount b)
      then (Inl (if mode (st s) \<noteq> Auction \<or> \<not> truthy (current_player_id (st s))
                 then ''Auction not active''
                 else if amount b \<le> current_bid (st s) then ''Bid too low''
                 else ''Invalid team or insufficient budget''), s)
      else (Inr (),
            s\<lparr>st := (st s)\<lparr>current_bid := amount b,
                            current_bidder_team_id := Some (teamId b),
                            timer_end := Some (now + 10000)\<rparr>,
              auction_log := auction_log s @
                [\<lparr>log_player_id = the (current_player_id (st s)),
                  log_team_id = teamId b,
                  bid_amount = amount b,
                  bid_increment = increment b,
                  is_auto_bid = isAutoBid b,
                  is_winning_bid = False,
                  log_season = season (st s)\<rparr>]\<rparr>))"
  by (auto simp: executeBid_def Let_def split: option.splits)







lemma processBidQueue_reentrant: "isProcessingBids s \<Longrightarrow> processBidQueue now s = s"
  by (simp add: processBidQueue.simps)

section \<open>Applied bids rise strictly\<close>


























section \<open>The opening bid of the initial seed\<close>

lemma executeBid_at_current_bid:
  "amount b = current_bid (st s) \<Longrightarrow>
   isl (fst (executeBid now b s)) \<and> snd (executeBid now b s) = s"
  by (simp add: executeBid_cases)

lemma skip_league:
  "snd (post_auction_skip_to_bidding Admin 2000 league) =
     league\<lparr>currentPhase := ''bidding'', phaseTimer := None,
            st := (st league)\<lparr>timer_end := Some 32000\<rparr>,
            bidQueue := [opening_bid], isProcessingBids := True\<rparr>"
  by (simp add: post_auction_skip_to_bidding_def requireAdmin_def startBiddingPhase_def
      triggerInitialAutoBids_def truthy_def Let_def engine_simps BID_INTERVAL_MS_def
      opening_bid_def league_defs)

text \<open>
  Claim C2, evaluated. The league is in the setup phase with player 1 at the base price
  100000 and enabled instructions of team 1 (ceiling 300000) and team 2 (ceiling
  500000); both budgets cover the base price. When the administrator skips to the
  bidding phase at time 2000 the seed puts the opening bid of team 2, the team with the
  highest ceiling, in the queue: at exactly the current bid, with increment 0. The
  drain takes it at time 3000 and \<^verbatim>\<open>executeBid\<close> turns it down as \<^verbatim>\<open>Bid too low\<close>, since the
  amount is not above the current bid: nobody is the current bidder, the log is empty,
  and the scan that follows (with team 2 left out) queues the bid of team 1 at 110000.
  The same happens at once when the phase timer fires at time 30000. By
  \<open>executeBid_at_current_bid\<close> an entry at the current bid is never applied.
\<close>

theorem opening_bid_does_not_claim_the_floor:
  "bidQueue (snd (post_auction_skip_to_bidding Admin 2000 league)) = [opening_bid] \<and>
   opening_bid = \<lparr>teamId = 2, amount = current_bid (st league), increment = 0, isAutoBid = True\<rparr> \<and>
   fst (executeBid 3000 opening_bid (snd (post_auction_skip_to_bidding Admin 2000 league))) =
     Inl ''Bid too low'' \<and>
   current_bidder_team_id
     (st (processBidQueue_iteration 3000 (snd (post_auction_skip_to_bidding Admin 2000 league)))) = None \<and>
   auction_log
     (processBidQueue_iteration 3000 (snd (post_auction_skip_to_bidding Admin 2000 league))) = [] \<and>
   bidQueue
     (processBidQueue_iteration 3000 (snd (post_auction_skip_to_bidding Admin 2000 league))) =
     [\<lparr>teamId = 1, amount = 110000, increment = 10000, isAutoBid = True\<rparr>] \<and>
   current_bidder_team_id (st (phaseTimer_fires 30000 league)) = None \<and>
   auction_log (phaseTimer_fires 30000 league) = [] \<and>
   bidQueue (phaseTimer_fires 30000 league) =
     [\<lparr>teamId = 1, amount = 110000, increment = 10000, isAutoBid = True\<rparr>]"
proof -
  have a: "bidQueue (snd (post_auction_skip_to_bidding Admin 2000 league)) = [opening_bid]"
    by (simp add: skip_league)
  have b: "opening_bid =
      \<lparr>teamId = 2, amount = current_bid (st league), increment = 0, isAutoBid = True\<rparr>"
    by (simp add: opening_bid_def league_defs)
  have c: "fst (executeBid 3000 opening_bid (snd (post_auction_skip_to_bidding Admin 2000 league))) =
     Inl ''Bid too low''"
    unfolding skip_league
    by (simp add: executeBid_def truthy_def Let_def opening_bid_def league_defs)
  have d: "processBidQueue_iteration 3000 (snd (post_auction_skip_to_bidding Admin 2000 league)) =
     league\<lparr>currentPhase := ''bidding'', phaseTimer := None,
            st := (st league)\<lparr>timer_end := Some 32000\<rparr>,
            bidQueue := [\<lparr>teamId = 1, amount = 110000, increment = 10000, isAutoBid = True\<rparr>],
            isProcessingBids := True, lastBidTime := 3000\<rparr>"
    unfolding skip_league
    by (simp add: engine_simps executeBid_def truthy_def Let_def opening_bid_def
        league_defs)
  have e: "phaseTimer_fires 30000 league =
     league\<lparr>currentPhase := ''bidding'', phaseTimer := None,
            st := (st league)\<lparr>timer_end := Some 60000\<rparr>,
            bidQueue := [\<lparr>teamId = 1, amount = 110000, increment = 10000, isAutoBid = True\<rparr>],
            isProcessingBids := True, lastBidTime := 30000\<rparr>"
    by (simp add: phaseTimer_fires_def startBiddingPhase_def triggerInitialAutoBids_def
        engine_simps executeBid_def truthy_def Let_def BID_INTERVAL_MS_def league_defs)
  show ?thesis
    unfolding d e using a b c by (simp add: league_defs)
qed


text \<open>
  In particular team 2, whose opening bid it was, is not the current bidder after the
  drain has taken the entry.
\<close>

theorem opening_bid_does_not_claim_the_floor_witness:
  "current_bidder_team_id
     (st (processBidQueue_iteration 3000 (snd (post_auction_skip_to_bidding Admin 2000 league)))) \<noteq>
     Some 2 \<and>
   current_bidder_team_id (st (phaseTimer_fires 30000 league)) \<noteq> Some 2"
  using opening_bid_does_not_claim_the_floor by simp

section \<open>One iteration of the drain\<close>





section \<open>Auto-bids after an applied bid\<close>




section \<open>The snake draft\<close>

lemma js_rem_nonneg: "0 \<le> a \<Longrightarrow> 0 < b \<Longrightarrow> js_rem a b = a mod b"
  by (cases "a = 0") (simp_all add: js_rem_def)

lemma js_rem_2: "0 \<le> a \<Longrightarrow> (js_rem a 2 = 0) = even a"
  by (simp add: js_rem_nonneg) presburger

lemma currentTeamId_snake:
  assumes "draft_order state = Some order" and "order \<noteq> []"
    and "1 \<le> draft_pick state" and "1 \<le> draft_round state"
  shows "currentTeamId state =
           Some (order ! (if odd (draft_round state)
                          then nat ((draft_pick state - 1) mod int (length order))
                          else length order - 1 - nat ((draft_pick state - 1) mod int (length order))))"
proof -
  let ?N = "int (length order)"
  let ?i = "(draft_pick state - 1) mod ?N"
  have N: "0 < ?N" using assms(2) by simp
  have i: "0 \<le> ?i" "?i < ?N" using N by simp_all
  have rem: "js_rem (draft_pick state - 1) ?N = ?i"
    using assms(3) N by (simp add: js_rem_nonneg)
  have rev: "(js_rem (draft_round state) 2 = 0) = even (draft_round state)"
    using assms(4) by (simp add: js_rem_2)
  have idx: "nat (?N - 1 - ?i) = length order - 1 - nat ?i"
    using i by linarith
  have fwd: "0 \<le> ?i \<and> ?i < ?N" using i by simp
  have bwd: "0 \<le> ?N - 1 - ?i \<and> ?N - 1 - ?i < ?N" using i by linarith
  show ?thesis
    using assms(1,2) by (simp add: currentTeamId_def Let_def rem rev fwd bwd idx)
qed

lemma post_draft_pick_advances:
  assumes "status (fst (post_draft_pick u r pid s)) = 200"
  shows "draft_pick (st (snd (post_draft_pick u r pid s))) = draft_pick (st s) + 1 \<and>
         draft_round (st (snd (post_draft_pick u r pid s))) =
           (if js_rem (draft_pick (st s) + 1 - 1)
                 (int (length (case draft_order (st s) of None \<Rightarrow> [] | Some l \<Rightarrow> l))) = 0
            then draft_round (st s) + 1 else draft_round (st s))"
  using assms
  by (auto simp: post_draft_pick_def Let_def insert_team_roster_def
      split: option.splits if_splits)

text \<open>
  Claim C5. In a draft whose order has \<open>N > 0\<close> teams, with the round and the pick
  counted from 1, the team on the clock is \<open>order[(pick - 1) mod N]\<close> in an odd round
  and \<open>order[N - 1 - (pick - 1) mod N]\<close> in an even round. A pick that succeeds adds
  one to the pick, and adds one to the round exactly when the index of the new pick,
  \<open>(pick' - 1) mod N\<close>, is 0. For six teams: pick 1 of round 1 is index 0, pick 6 of
  round 1 is index 5, pick 7 of round 2 is index 5, pick 12 of round 2 is index 0.
\<close>

theorem snake_draft_turn:
  "draft_order (st s) = Some order \<Longrightarrow> order \<noteq> [] \<Longrightarrow>
   1 \<le> draft_pick (st s) \<Longrightarrow> 1 \<le> draft_round (st s) \<Longrightarrow>
   currentTeamId (st s) =
     Some (order ! (if odd (draft_round (st s))
                    then nat ((draft_pick (st s) - 1) mod int (length order))
                    else length order - 1 - nat ((draft_pick (st s) - 1) mod int (length order)))) \<and>
   (status (fst (post_draft_pick u r pid s)) = 200 \<longrightarrow>
      draft_pick (st (snd (post_draft_pick u r pid s))) = draft_pick (st s) + 1 \<and>
      draft_round (st (snd (post_draft_pick u r pid s))) =
        (if (draft_pick (st (snd (post_draft_pick u r pid s))) - 1) mod int (length order) = 0
         then draft_round (st s) + 1 else draft_round (st s))) \<and>
   (length order = 6 \<longrightarrow>
      (draft_round (st s) = 1 \<and> draft_pick (st s) = 1 \<longrightarrow> currentTeamId (st s) = Some (order ! 0)) \<and>
      (draft_round (st s) = 1 \<and> draft_pick (st s) = 6 \<longrightarrow> currentTeamId (st s) = Some (order ! 5)) \<and>
      (draft_round (st s) = 2 \<and> draft_pick (st s) = 7 \<longrightarrow> currentTeamId (st s) = Some (order ! 5)) \<and>
      (draft_round (st s) = 2 \<and> draft_pick (st s) = 12 \<longrightarrow> currentTeamId (st s) = Some (order ! 0)))"
proof -
  assume a: "draft_order (st s) = Some order" "order \<noteq> []"
    "1 \<le> draft_pick (st s)" "1 \<le> draft_round (st s)"
  have turn: "currentTeamId (st s) =
     Some (order ! (if odd (draft_round (st s))
                    then nat ((draft_pick (st s) - 1) mod int (length order))
                    else length order - 1 - nat ((draft_pick (st s) - 1) mod int (length order))))"
    using a by (rule currentTeamId_snake)
  have N: "0 < int (length order)" using a(2) by simp
  have adv: "status (fst (post_draft_pick u r pid s)) = 200 \<longrightarrow>
      draft_pick (st (snd (post_draft_pick u r pid s))) = draft_pick (st s) + 1 \<and>
      draft_round (st (snd (post_draft_pick u r pid s))) =
        (if (draft_pick (st (snd (post_draft_pick u r pid s))) - 1) mod int (length order) = 0
         then draft_round (st s) + 1 else draft_round (st s))"
    using post_draft_pick_advances [of u r pid s] a(1,3) N
    by (simp add: js_rem_nonneg)
  have six: "length order = 6 \<longrightarrow>
      (draft_round (st s) = 1 \<and> draft_pick (st s) = 1 \<longrightarrow> currentTeamId (st s) = Some (order ! 0)) \<and>
      (draft_round (st s) = 1 \<and> draft_pick (st s) = 6 \<longrightarrow> currentTeamId (st s) = Some (order ! 5)) \<and>
      (draft_round (st s) = 2 \<and> draft_pick (st s) = 7 \<longrightarrow> currentTeamId (st s) = Some (order ! 5)) \<and>
      (draft_round (st s) = 2 \<and> draft_pick (st s) = 12 \<longrightarrow> currentTeamId (st s) = Some (order ! 0))"
    by (simp add: turn)
  show ?thesis using turn adv six by blast
qed

text \<open>
  With six teams, at pick 7 of round 2 the sixth team is on the clock, and a pick by
  the administrator moves to pick 8 of round 2; at pick 6 of round 1 the sixth team is
  on the clock too, and a pick moves to pick 7 of round 2.
\<close>

theorem snake_draft_turn_witness:
  "draft_order (st draft_league) = Some [1, 2, 3, 4, 5, 6] \<and>
   draft_round (st draft_league) = 2 \<and> draft_pick (st draft_league) = 7 \<and>
   currentTeamId (st draft_league) = Some 6 \<and>
   status (fst (post_draft_pick 99 Admin (Some 3) draft_league)) = 200 \<and>
   draft_pick (st (snd (post_draft_pick 99 Admin (Some 3) draft_league))) = 8 \<and>
   draft_round (st (snd (post_draft_pick 99 Admin (Some 3) draft_league))) = 2 \<and>
   currentTeamId (st last_pick_of_round_one) = Some 6 \<and>
   status (fst (post_draft_pick 99 Admin (Some 3) last_pick_of_round_one)) = 200 \<and>
   draft_pick (st (snd (post_draft_pick 99 Admin (Some 3) last_pick_of_round_one))) = 7 \<and>
   draft_round (st (snd (post_draft_pick 99 Admin (Some 3) last_pick_of_round_one))) = 2"
proof -
  have ok: "status (fst (post_draft_pick 99 Admin (Some 3) draft_league)) = 200"
    "status (fst (post_draft_pick 99 Admin (Some 3) last_pick_of_round_one)) = 200"
    by (simp_all add: post_draft_pick_def currentTeamId_def js_rem_def insert_team_roster_def
        truthy_def Let_def last_pick_of_round_one_def draft_league_def league_defs)
  have st: "st draft_league = \<lparr>mode = Draft, current_player_id = None, current_bid = 0,
             current_bidder_team_id = None, timer_end = None,
             draft_round = 2, draft_pick = 7, draft_order = Some [1, 2, 3, 4, 5, 6], season = 1\<rparr>"
    "st last_pick_of_round_one = \<lparr>mode = Draft, current_player_id = None, current_bid = 0,
             current_bidder_team_id = None, timer_end = None,
             draft_round = 1, draft_pick = 6, draft_order = Some [1, 2, 3, 4, 5, 6], season = 1\<rparr>"
    by (simp_all add: last_pick_of_round_one_def draft_league_def league_defs)
  show ?thesis
    using snake_draft_turn [of draft_league "[1, 2, 3, 4, 5, 6]" 99 Admin "Some 3"]
      snake_draft_turn [of last_pick_of_round_one "[1, 2, 3, 4, 5, 6]" 99 Admin "Some 3"]
    by (simp add: ok st)
qed

section \<open>Sold\<close>

lemmas sold_defs = highest_bid_500000_def already_on_roster_def bidding_league_def league_defs

text \<open>
  Claim C6, with the condition under which the store takes the roster row. If
  \<^verbatim>\<open>/auction/sold\<close> is called while player \<open>p\<close> is on the block with current bid \<open>B\<close> and
  current bidder \<open>T\<close>, the team \<open>T\<close> and the player \<open>p\<close> are rows of the store, and \<open>p\<close>
  is not yet on the roster of \<open>T\<close> for the season, then the call succeeds and
  afterwards the remaining budget of \<open>T\<close> is lower by exactly \<open>B\<close>, the player is
  unavailable, the roster has a new row for \<open>T\<close>, \<open>p\<close> and the season, every log row of
  \<open>p\<close>, \<open>T\<close>, \<open>B\<close> and the season is flagged as the winning bid (and no other row is
  touched), and the current player, bid, bidder and timer of the auction state are
  cleared; a second call right after is rejected with an error and changes nothing in
  the auction state.
\<close>

theorem sold_commits_the_acquisition:
  "current_player_id (st s) = Some p \<Longrightarrow> p \<noteq> 0 \<Longrightarrow>
   current_bidder_team_id (st s) = Some T \<Longrightarrow> T \<noteq> 0 \<Longrightarrow>
   current_bid (st s) = B \<Longrightarrow>
   teams s T = Some team \<Longrightarrow> players s p = Some pl \<Longrightarrow>
   \<forall>x \<in> set (team_roster s).
      \<not> (roster_team_id x = T \<and> roster_player_id x = p \<and> roster_season x = season (st s)) \<Longrightarrow>
   fst (post_auction_sold Admin s) = Response 200 ''Player sold'' \<and>
   teams (snd (post_auction_sold Admin s)) T =
     Some (team\<lparr>budget_remaining := budget_remaining team - B\<rparr>) \<and>
   players (snd (post_auction_sold Admin s)) p = Some (pl\<lparr>is_available := False\<rparr>) \<and>
   team_roster (snd (post_auction_sold Admin s)) =
     team_roster s @
       [\<lparr>roster_team_id = T, roster_player_id = p, acquisition_type = Auctioned,
         price = B, roster_season = season (st s)\<rparr>] \<and>
   auction_log (snd (post_auction_sold Admin s)) =
     map (\<lambda>e. if log_player_id e = p \<and> log_team_id e = T \<and> bid_amount e = B \<and>
                  log_season e = season (st s)
               then e\<lparr>is_winning_bid := True\<rparr> else e) (auction_log s) \<and>
   current_player_id (st (snd (post_auction_sold Admin s))) = None \<and>
   current_bid (st (snd (post_auction_sold Admin s))) = 0 \<and>
   current_bidder_team_id (st (snd (post_auction_sold Admin s))) = None \<and>
   timer_end (st (snd (post_auction_sold Admin s))) = None \<and>
   rejected (fst (post_auction_sold Admin (snd (post_auction_sold Admin s)))) \<and>
   st (snd (post_auction_sold Admin (snd (post_auction_sold Admin s)))) =
     st (snd (post_auction_sold Admin s))"
proof -
  assume a: "current_player_id (st s) = Some p" "p \<noteq> 0"
    "current_bidder_team_id (st s) = Some T" "T \<noteq> 0" "current_bid (st s) = B"
    "teams s T = Some team" "players s p = Some pl"
    "\<forall>x \<in> set (team_roster s).
      \<not> (roster_team_id x = T \<and> roster_player_id x = p \<and> roster_season x = season (st s))"
  let ?s1 = "s\<lparr>bidQueue := [], currentPhase := ''idle'', phaseTimer := None\<rparr>"
  let ?row = "\<lparr>roster_team_id = T, roster_player_id = p, acquisition_type = Auctioned,
         price = B, roster_season = season (st s)\<rparr>"
  have ins: "insert_team_roster ?row ?s1 = Some (?s1\<lparr>team_roster := team_roster s @ [?row]\<rparr>)"
    using a(6,7,8) by (auto simp: insert_team_roster_def list_ex_iff)
  have sold: "post_auction_sold Admin s =
      (Response 200 ''Player sold'',
       ?s1\<lparr>team_roster := team_roster s @ [?row],
            teams := (\<lambda>i. if i = T
                            then map_option (\<lambda>t. t\<lparr>budget_remaining := budget_remaining t - B\<rparr>)
                                   (teams s i)
                            else teams s i),
            players := (\<lambda>i. if i = p
                              then map_option (\<lambda>q. q\<lparr>is_available := False\<rparr>) (players s i)
                              else players s i),
            auction_log := map (\<lambda>e. if log_player_id e = p \<and> log_team_id e = T \<and>
                                         bid_amount e = B \<and> log_season e = season (st s)
                                      then e\<lparr>is_winning_bid := True\<rparr> else e) (auction_log s),
            st := clear_current_auction (st s),
            autoBidSettings := []\<rparr>)"
    using a(1-5) ins
    by (simp add: post_auction_sold_def requireAdmin_def truthy_def Let_def
        cong del: if_weak_cong)
  show ?thesis
    unfolding sold using a(6,7)
    by (simp add: clear_current_auction_def post_auction_sold_def requireAdmin_def truthy_def
        rejected_def Let_def)
qed

text \<open>
  Team 1 holds the highest bid of 500000 for player 1, and the log has the row of that
  bid: sold takes 500000 from the budget of 10000000, flags the row, and the second
  call is rejected.
\<close>

theorem sold_commits_the_acquisition_witness:
  "current_player_id (st highest_bid_500000) = Some 1 \<and>
   current_bidder_team_id (st highest_bid_500000) = Some 1 \<and>
   current_bid (st highest_bid_500000) = 500000 \<and>
   map_option budget_remaining (teams highest_bid_500000 1) = Some 10000000 \<and>
   fst (post_auction_sold Admin highest_bid_500000) = Response 200 ''Player sold'' \<and>
   map_option budget_remaining (teams (snd (post_auction_sold Admin highest_bid_500000)) 1) =
     Some 9500000 \<and>
   map_option is_available (players (snd (post_auction_sold Admin highest_bid_500000)) 1) =
     Some False \<and>
   map is_winning_bid (auction_log (snd (post_auction_sold Admin highest_bid_500000))) = [True] \<and>
   current_player_id (st (snd (post_auction_sold Admin highest_bid_500000))) = None \<and>
   rejected (fst (post_auction_sold Admin (snd (post_auction_sold Admin highest_bid_500000))))"
proof -
  have w: "highest_bid_500000 =
     bidding_league\<lparr>st := (st bidding_league)\<lparr>current_bid := 500000,
                                              current_bidder_team_id := Some 1,
                                              timer_end := Some 50000\<rparr>,
       auction_log := [\<lparr>log_player_id = 1, log_team_id = 1, bid_amount = 500000,
                        bid_increment = 400000, is_auto_bid = False, is_winning_bid = False,
                        log_season = 1\<rparr>]\<rparr>"
    by (simp add: highest_bid_500000_def executeBid_def truthy_def Let_def bidding_league_def
        league_defs)
  have pre: "current_player_id (st highest_bid_500000) = Some 1"
    "current_bidder_team_id (st highest_bid_500000) = Some 1"
    "current_bid (st highest_bid_500000) = 500000"
    "teams highest_bid_500000 1 = Some \<lparr>owner_id = Some 10, captain_id = Some 11,
        budget_remaining = 10000000, bidding_authority_user_id = None\<rparr>"
    "players highest_bid_500000 1 = Some \<lparr>user_id = Some 31, base_price = 100000, is_available = True\<rparr>"
    "\<forall>x \<in> set (team_roster highest_bid_500000).
      \<not> (roster_team_id x = 1 \<and> roster_player_id x = 1 \<and>
         roster_season x = season (st highest_bid_500000))"
    "season (st highest_bid_500000) = 1"
    "map is_winning_bid (auction_log highest_bid_500000) = [False]"
    "map log_player_id (auction_log highest_bid_500000) = [1]"
    "map log_team_id (auction_log highest_bid_500000) = [1]"
    "map bid_amount (auction_log highest_bid_500000) = [500000]"
    "map log_season (auction_log highest_bid_500000) = [1]"
    unfolding w by (simp_all add: bidding_league_def league_defs)
  show ?thesis
    using sold_commits_the_acquisition [OF pre(1) _ pre(2) _ pre(3) pre(4) pre(5) pre(6)] pre
    by auto
qed


text \<open>
  Without the condition the claim fails: \<^verbatim>\<open>team_roster\<close> is
  \<^verbatim>\<open>UNIQUE(team_id, player_id, season)\<close>. When player 1 is on the roster of team 1 for the
  season already, the insert of \<^verbatim>\<open>/auction/sold\<close> throws, the route answers 500, and the
  budget, the availability of the player, the log and the player on the block are as
  before.
\<close>

theorem sold_fails_on_duplicate_roster_row:
  "truthy (current_player_id (st already_on_roster)) \<and>
   current_bid (st already_on_roster) = 500000 \<and>
   current_bidder_team_id (st already_on_roster) = Some 1 \<and>
   map_option budget_remaining (teams already_on_roster 1) = Some 10000000 \<and>
   fst (post_auction_sold Admin already_on_roster) = Response 500 ''Internal server error'' \<and>
   map_option budget_remaining (teams (snd (post_auction_sold Admin already_on_roster)) 1) =
     Some 10000000 \<and>
   map_option is_available (players (snd (post_auction_sold Admin already_on_roster)) 1) =
     Some True \<and>
   map is_winning_bid (auction_log (snd (post_auction_sold Admin already_on_roster))) = [False] \<and>
   current_player_id (st (snd (post_auction_sold Admin already_on_roster))) = Some 1"
  by (simp add: post_auction_sold_def requireAdmin_def insert_team_roster_def executeBid_def
      truthy_def Let_def sold_defs)


section \<open>Manual bids and the setup phase\<close>

text \<open>
  Claim C7. While the phase is \<^verbatim>\<open>setup\<close> the queued bid route answers every request
  with an error and leaves the world as it was, so no entry is appended to the queue
  and the auction state is unchanged; for a request that names a team and an amount,
  in an auction with a player on the block, the error is the one of the setup phase.
  Once the phase is \<^verbatim>\<open>bidding\<close>, the same bid (in an auction with a player on the block,
  for a team of the store) is accepted provided that the amount exceeds the current
  bid, is within the budget of the team, and the submitter has bidding authority: the
  answer is \<^verbatim>\<open>Bid queued\<close>, the entry is appended at the tail of the queue and the drain
  is started; when a drain is in progress already, the new world is the old one with
  the entry appended.
\<close>

theorem setup_phase_rejects_manual_bids:
  "(currentPhase s = ''setup'' \<longrightarrow>
      rejected (fst (post_auction_bid u r team_id amt incr now s)) \<and>
      snd (post_auction_bid u r team_id amt incr now s) = s) \<and>
   (currentPhase s = ''setup'' \<and> mode (st s) = Auction \<and> truthy (current_player_id (st s)) \<and>
    tid \<noteq> 0 \<and> a \<noteq> 0 \<longrightarrow>
      fst (post_auction_bid u r (Some tid) (Some a) incr now s) =
        Response 400 ''Still in setup phase - set your auto-bid target instead'') \<and>
   (currentPhase s' = ''bidding'' \<and> mode (st s') = Auction \<and> truthy (current_player_id (st s')) \<and>
    tid \<noteq> 0 \<and> a \<noteq> 0 \<and> teams s' tid = Some team \<and> hasBiddingAuthority team u r \<and>
    current_bid (st s') < a \<and> a \<le> budget_remaining team \<longrightarrow>
      post_auction_bid u r (Some tid) (Some a) incr now' s' =
        (Response 200 ''Bid queued'',
         processBidQueue now'
           (s'\<lparr>bidQueue := bidQueue s' @
                [\<lparr>teamId = tid, amount = a,
                  increment = (if truthy_int incr then the incr else a - current_bid (st s')),
                  isAutoBid = False\<rparr>]\<rparr>)) \<and>
      (isProcessingBids s' \<longrightarrow>
         snd (post_auction_bid u r (Some tid) (Some a) incr now' s') =
           s'\<lparr>bidQueue := bidQueue s' @
                [\<lparr>teamId = tid, amount = a,
                  increment = (if truthy_int incr then the incr else a - current_bid (st s')),
                  isAutoBid = False\<rparr>]\<rparr>))"
  by (auto simp: post_auction_bid_def rejected_def truthy_def truthy_int_def Let_def
      processBidQueue.simps split: option.splits)

text \<open>
  The owner of team 1 bids 150000: rejected in the league during setup, queued in the
  bidding league.
\<close>

theorem setup_phase_rejects_manual_bids_witness:
  "currentPhase league = ''setup'' \<and>
   post_auction_bid 10 Owner (Some 1) (Some 150000) None 20000 league =
     (Response 400 ''Still in setup phase - set your auto-bid target instead'', league) \<and>
   currentPhase bidding_league = ''bidding'' \<and>
   fst (post_auction_bid 10 Owner (Some 1) (Some 150000) None 40000 bidding_league) =
     Response 200 ''Bid queued'' \<and>
   snd (post_auction_bid 10 Owner (Some 1) (Some 150000) None 40000 bidding_league) =
     processBidQueue 40000 (bidding_league\<lparr>bidQueue := [raise_bid]\<rparr>) \<and>
   snd (post_auction_bid 10 Owner (Some 1) (Some 150000) None 40000
          (bidding_league\<lparr>isProcessingBids := True\<rparr>)) =
     bidding_league\<lparr>isProcessingBids := True, bidQueue := [raise_bid]\<rparr>"
proof -
  have in_setup: "currentPhase league = ''setup''" "mode (st league) = Auction"
    "truthy (current_player_id (st league))"
    by (simp_all add: league_defs truthy_def)
  have in_bidding: "currentPhase bidding_league = ''bidding''" "mode (st bidding_league) = Auction"
    "truthy (current_player_id (st bidding_league))"
    "teams bidding_league 1 = Some \<lparr>owner_id = Some 10, captain_id = Some 11,
        budget_remaining = 10000000, bidding_authority_user_id = None\<rparr>"
    "current_bid (st bidding_league) = 100000" "bidQueue bidding_league = []"
    by (simp_all add: bidding_league_def league_defs truthy_def)
  have auth: "hasBiddingAuthority \<lparr>owner_id = Some 10, captain_id = Some 11,
        budget_remaining = 10000000, bidding_authority_user_id = None\<rparr> 10 Owner"
    by (simp add: hasBiddingAuthority_def truthy_def)
  have r1: "post_auction_bid 10 Owner (Some 1) (Some 150000) None 20000 league =
     (Response 400 ''Still in setup phase - set your auto-bid target instead'', league)"
    using setup_phase_rejects_manual_bids [where s = league and u = 10 and r = Owner
        and team_id = "Some 1" and amt = "Some 150000" and incr = None and now = 20000
        and tid = 1 and a = 150000 and s' = bidding_league and now' = 40000
        and team = "\<lparr>owner_id = Some 10, captain_id = Some 11,
        budget_remaining = 10000000, bidding_authority_user_id = None\<rparr>"] in_setup
    by (auto simp: prod_eq_iff)
  have r2: "post_auction_bid 10 Owner (Some 1) (Some 150000) None 40000 bidding_league =
     (Response 200 ''Bid queued'', processBidQueue 40000 (bidding_league\<lparr>bidQueue := [raise_bid]\<rparr>))"
    using setup_phase_rejects_manual_bids [where s' = bidding_league and u = 10 and r = Owner
        and s = league and team_id = "Some 1" and amt = "Some 150000" and now = 20000
        and incr = None and now' = 40000 and tid = 1 and a = 150000
        and team = "\<lparr>owner_id = Some 10, captain_id = Some 11,
        budget_remaining = 10000000, bidding_authority_user_id = None\<rparr>"] in_bidding auth
    by (auto simp: truthy_int_def raise_bid_def)
  have r3: "snd (post_auction_bid 10 Owner (Some 1) (Some 150000) None 40000
          (bidding_league\<lparr>isProcessingBids := True\<rparr>)) =
     bidding_league\<lparr>isProcessingBids := True, bidQueue := [raise_bid]\<rparr>"
    using setup_phase_rejects_manual_bids [where s' = "bidding_league\<lparr>isProcessingBids := True\<rparr>"
        and s = league and team_id = "Some 1" and amt = "Some 150000" and now = 20000
        and u = 10 and r = Owner
        and incr = None and now' = 40000 and tid = 1 and a = 150000
        and team = "\<lparr>owner_id = Some 10, captain_id = Some 11,
        budget_remaining = 10000000, bidding_authority_user_id = None\<rparr>"] in_bidding auth
    by (auto simp: truthy_int_def raise_bid_def)
  show ?thesis using in_setup(1) in_bidding(1) r1 r2 r3 by simp
qed


section \<open>Bidding authority and delegation\<close>

text \<open>
  Claim C8. Bidding authority is a function of the team, the requesting user and the
  role: an administrator always has it; otherwise, when a delegate is set, exactly the
  delegate has it; otherwise exactly the owner. A delegation to \<open>d\<close> that succeeds
  has \<open>d\<close> the captain of the team or a user with a roster row of acquisition type
  \<^verbatim>\<open>core\<close> on the team, and stores \<open>d\<close> as the delegate; a delegate who is neither is
  rejected and nothing changes. A revocation by the owner or an administrator clears
  the delegate, after which exactly the owner (besides administrators) has authority.
\<close>

theorem bidding_authority:
  "(hasBiddingAuthority team userId userRole =
      (userRole = Admin \<or>
       (if truthy (bidding_authority_user_id team)
        then bidding_authority_user_id team = Some userId
        else owner_id team = Some userId))) \<and>
   (teams s tid = Some team \<and> tid \<noteq> 0 \<and> d \<noteq> 0 \<longrightarrow>
      (status (fst (post_auction_authority userId userRole (Some tid) (Some d) s)) = 200 \<longrightarrow>
         (captain_id team = Some d \<or>
          (\<exists>tr \<in> set (team_roster s). roster_team_id tr = tid \<and> acquisition_type tr = Core \<and>
             (\<exists>p. players s (roster_player_id tr) = Some p \<and> user_id p = Some d))) \<and>
         teams (snd (post_auction_authority userId userRole (Some tid) (Some d) s)) tid =
           Some (team\<lparr>bidding_authority_user_id := Some d\<rparr>)) \<and>
      (captain_id team \<noteq> Some d \<and>
       \<not> (\<exists>tr \<in> set (team_roster s). roster_team_id tr = tid \<and> acquisition_type tr = Core \<and>
             (\<exists>p. players s (roster_player_id tr) = Some p \<and> user_id p = Some d)) \<longrightarrow>
         rejected (fst (post_auction_authority userId userRole (Some tid) (Some d) s)) \<and>
         snd (post_auction_authority userId userRole (Some tid) (Some d) s) = s)) \<and>
   (teams s tid = Some team \<and> (userRole = Admin \<or> owner_id team = Some userId) \<longrightarrow>
      teams (snd (delete_auction_authority userId userRole tid s)) tid =
        Some (team\<lparr>bidding_authority_user_id := None\<rparr>) \<and>
      (\<forall>u r. r \<noteq> Admin \<longrightarrow>
         hasBiddingAuthority (team\<lparr>bidding_authority_user_id := None\<rparr>) u r =
           (owner_id team = Some u)))"
  by (auto simp: hasBiddingAuthority_def post_auction_authority_def delete_auction_authority_def
      truthy_def Let_def isCorePlayer_def rejected_def set_bidding_authority_def list_ex_iff
      split: option.splits if_splits)

text \<open>
  In the small league the owner of team 1 (user 10) has authority and the captain
  (user 11) has not; the owner delegates to the captain, after which the captain has
  it and the owner has not; a delegation to the core player (user 12) succeeds too, one
  to user 31 is rejected; after the revocation the owner has authority again.
\<close>

theorem bidding_authority_witness:
  "hasBiddingAuthority (the (teams league 1)) 10 Owner \<and>
   \<not> hasBiddingAuthority (the (teams league 1)) 11 Captain \<and>
   status (fst (post_auction_authority 10 Owner (Some 1) (Some 11) league)) = 200 \<and>
   captain_id (the (teams league 1)) = Some 11 \<and>
   hasBiddingAuthority
     (the (teams (snd (post_auction_authority 10 Owner (Some 1) (Some 11) league)) 1)) 11 Captain \<and>
   \<not> hasBiddingAuthority
     (the (teams (snd (post_auction_authority 10 Owner (Some 1) (Some 11) league)) 1)) 10 Owner \<and>
   status (fst (post_auction_authority 10 Owner (Some 1) (Some 12) league)) = 200 \<and>
   rejected (fst (post_auction_authority 10 Owner (Some 1) (Some 31) league)) \<and>
   snd (post_auction_authority 10 Owner (Some 1) (Some 31) league) = league \<and>
   hasBiddingAuthority
     (the (teams (snd (delete_auction_authority 10 Owner 1
        (snd (post_auction_authority 10 Owner (Some 1) (Some 11) league)))) 1)) 10 Owner"
  using bidding_authority [where s = league and tid = 1 and d = 11 and userId = 10
      and userRole = Owner and team = "the (teams league 1)"]
    bidding_authority [where s = league and tid = 1 and d = 31 and userId = 10
      and userRole = Owner and team = "the (teams league 1)"]
  by (simp add: league_defs hasBiddingAuthority_def post_auction_authority_def
      delete_auction_authority_def truthy_def Let_def isCorePlayer_def rejected_def
      set_bidding_authority_def)

section \<open>Sold and unsold with nothing to complete\<close>

text \<open>
  Claim C10. When \<^verbatim>\<open>/auction/sold\<close> is called with no player on the block or no current
  bidder, and when \<^verbatim>\<open>/auction/unsold\<close> is called with no player on the block, the answer
  is an error (status 400), and the world that is left is the old one with the bid
  queue emptied, the phase timer cancelled and the phase reset to \<^verbatim>\<open>idle\<close>.
\<close>

theorem sold_unsold_rejection_resets_engine:
  "(\<not> truthy (current_player_id (st s)) \<or> \<not> truthy (current_bidder_team_id (st s)) \<longrightarrow>
      post_auction_sold Admin s =
        (Response 400 ''No active bid to complete'',
         s\<lparr>bidQueue := [], currentPhase := ''idle'', phaseTimer := None\<rparr>)) \<and>
   (\<not> truthy (current_player_id (st s)) \<longrightarrow>
      post_auction_unsold Admin s =
        (Response 400 ''No player being auctioned'',
         s\<lparr>bidQueue := [], currentPhase := ''idle'', phaseTimer := None\<rparr>)) \<and>
   rejected (Response 400 m)"
  by (simp add: post_auction_sold_def post_auction_unsold_def requireAdmin_def rejected_def Let_def)

text \<open>
  In \<open>nobody_on_the_block\<close> both calls are rejected, and the queue, the phase and the
  timer are reset.
\<close>

theorem sold_unsold_rejection_resets_engine_witness:
  "\<not> truthy (current_player_id (st nobody_on_the_block)) \<and>
   bidQueue nobody_on_the_block \<noteq> [] \<and>
   currentPhase nobody_on_the_block = ''bidding'' \<and>
   phaseTimer nobody_on_the_block = Some 30000 \<and>
   rejected (fst (post_auction_sold Admin nobody_on_the_block)) \<and>
   bidQueue (snd (post_auction_sold Admin nobody_on_the_block)) = [] \<and>
   currentPhase (snd (post_auction_sold Admin nobody_on_the_block)) = ''idle'' \<and>
   phaseTimer (snd (post_auction_sold Admin nobody_on_the_block)) = None \<and>
   rejected (fst (post_auction_unsold Admin nobody_on_the_block)) \<and>
   bidQueue (snd (post_auction_unsold Admin nobody_on_the_block)) = [] \<and>
   currentPhase (snd (post_auction_unsold Admin nobody_on_the_block)) = ''idle'' \<and>
   phaseTimer (snd (post_auction_unsold Admin nobody_on_the_block)) = None"
  using sold_unsold_rejection_resets_engine [of nobody_on_the_block]
  by (simp add: nobody_on_the_block_def league_defs truthy_def)

end
